theory Spec2Isabelle
  imports Main "HOL-Library.AList"
begin

section \<open>Dates and their text form\<close>

text \<open>
  The script reads the clock with \<^verbatim>\<open>datetime.now()\<close> and uses the result in three ways
  only: \<^verbatim>\<open>weekday()\<close>, subtraction of whole days, and the text form \<^verbatim>\<open>%Y-%m-%d\<close>.
  None of them looks at the time of day, and \<^verbatim>\<open>(current_date - poll_date).days\<close> with
  \<^verbatim>\<open>poll_date\<close> at midnight is the difference of the two dates. A datetime is therefore
  represented by the proleptic Gregorian ordinal of its date (Python's \<^verbatim>\<open>toordinal()\<close>:
  day 1 is 0001-01-01, a Monday; the last day, 9999-12-31, is 3652059). The functions
  of this section model the Python standard library on these days.
\<close>

type_synonym datetime = int

definition weekday :: "datetime \<Rightarrow> int" where
  "weekday d = (d + 6) mod 7"

definition is_leap :: "int \<Rightarrow> bool" where
  "is_leap y \<longleftrightarrow> y mod 4 = 0 \<and> (y mod 100 \<noteq> 0 \<or> y mod 400 = 0)"

definition days_in_month_tab :: "int \<Rightarrow> int" where
  "days_in_month_tab m =
     (if m = 2 then 28 else if m = 4 \<or> m = 6 \<or> m = 9 \<or> m = 11 then 30 else 31)"

definition days_in_month :: "int \<Rightarrow> int \<Rightarrow> int" where
  "days_in_month y m = (if m = 2 \<and> is_leap y then 29 else days_in_month_tab m)"

definition days_before_month_tab :: "int \<Rightarrow> int" where
  "days_before_month_tab m =
     (if m = 1 then 0 else if m = 2 then 31 else if m = 3 then 59 else if m = 4 then 90
      else if m = 5 then 120 else if m = 6 then 151 else if m = 7 then 181
      else if m = 8 then 212 else if m = 9 then 243 else if m = 10 then 273
      else if m = 11 then 304 else 334)"

definition days_before_year :: "int \<Rightarrow> int" where
  "days_before_year y = (y - 1) * 365 + (y - 1) div 4 - (y - 1) div 100 + (y - 1) div 400"

definition ymd2ord :: "int \<Rightarrow> int \<Rightarrow> int \<Rightarrow> datetime" where
  "ymd2ord y m d =
     days_before_year y + (days_before_month_tab m + (if 2 < m \<and> is_leap y then 1 else 0)) + d"

definition ord2ymd :: "datetime \<Rightarrow> int \<times> int \<times> int" where
  "ord2ymd ordinal =
     (let n = ordinal - 1;
          n400 = n div 146097; n = n mod 146097;
          year = n400 * 400 + 1;
          n100 = n div 36524; n = n mod 36524;
          n4 = n div 1461; n = n mod 1461;
          n1 = n div 365; n = n mod 365;
          year = year + n100 * 100 + n4 * 4 + n1
      in if n1 = 4 \<or> n100 = 4 then (year - 1, 12, 31)
         else
           let leapyear = (n1 = 3 \<and> (n4 \<noteq> 24 \<or> n100 = 3));
               month = (n + 50) div 32;
               preceding = days_before_month_tab month + (if 2 < month \<and> leapyear then 1 else 0)
           in if n < preceding
              then
                let month = month - 1;
                    preceding = preceding
                      - (days_in_month_tab month + (if month = 2 \<and> leapyear then 1 else 0))
                in (year, month, n - preceding + 1)
              else (year, month, n - preceding + 1))"

definition digit_char :: "nat \<Rightarrow> char" where
  "digit_char n = ''0123456789'' ! (n mod 10)"

fun str_nat :: "nat \<Rightarrow> string" where
  "str_nat n = (if n < 10 then [digit_char n] else str_nat (n div 10) @ [digit_char (n mod 10)])"

declare str_nat.simps [simp del]

definition str_int :: "int \<Rightarrow> string" where
  "str_int i = (if i < 0 then CHR ''-'' # str_nat (nat (- i)) else str_nat (nat i))"

definition zero_pad :: "nat \<Rightarrow> string \<Rightarrow> string" where
  "zero_pad w s = replicate (w - length s) CHR ''0'' @ s"

text \<open>
  \<^verbatim>\<open>strftime("%Y-%m-%d")\<close>. The month and the day have two digits; the year is printed
  by the C library as the number it is, so a year below 1000 has fewer than four digits.
\<close>

definition strftime :: "datetime \<Rightarrow> string" where
  "strftime d =
     (case ord2ymd d of (y, m, dd) \<Rightarrow>
        str_int y @ ''-'' @ zero_pad 2 (str_int m) @ ''-'' @ zero_pad 2 (str_int dd))"

definition digit_val :: "char \<Rightarrow> int option" where
  "digit_val c = map_of
     [(CHR ''0'', 0), (CHR ''1'', 1), (CHR ''2'', 2), (CHR ''3'', 3), (CHR ''4'', 4),
      (CHR ''5'', 5), (CHR ''6'', 6), (CHR ''7'', 7), (CHR ''8'', 8), (CHR ''9'', 9)] c"

text \<open>
  The month and day directives of \<^verbatim>\<open>strptime\<close> are the regular expressions
  \<^verbatim>\<open>1[0-2]|0[1-9]|[1-9]\<close> and \<^verbatim>\<open>3[01]|[12]\d|0[1-9]|[1-9]| [1-9]\<close>; each function returns
  the number read and the rest of the input.
\<close>

fun parse_month :: "string \<Rightarrow> (int \<times> string) option" where
  "parse_month (a # b # rest) =
     (case (digit_val a, digit_val b) of
        (Some x, Some y) \<Rightarrow>
          if x = 1 \<and> y \<le> 2 then Some (10 + y, rest)
          else if x = 0 \<and> 1 \<le> y then Some (y, rest)
          else if 1 \<le> x then Some (x, b # rest) else None
      | (Some x, None) \<Rightarrow> if 1 \<le> x then Some (x, b # rest) else None
      | (None, _) \<Rightarrow> None)"
| "parse_month [a] = (case digit_val a of Some x \<Rightarrow> if 1 \<le> x then Some (x, []) else None
                      | None \<Rightarrow> None)"
| "parse_month [] = None"

fun parse_day :: "string \<Rightarrow> (int \<times> string) option" where
  "parse_day (a # b # rest) =
     (case (digit_val a, digit_val b) of
        (Some x, Some y) \<Rightarrow>
          if x = 3 \<and> y \<le> 1 then Some (30 + y, rest)
          else if x = 1 \<or> x = 2 then Some (10 * x + y, rest)
          else if x = 0 \<and> 1 \<le> y then Some (y, rest)
          else if 1 \<le> x then Some (x, b # rest) else None
      | (Some x, None) \<Rightarrow> if 1 \<le> x then Some (x, b # rest) else None
      | (None, Some y) \<Rightarrow> if a = CHR '' '' \<and> 1 \<le> y then Some (y, rest) else None
      | (None, None) \<Rightarrow> None)"
| "parse_day [a] = (case digit_val a of Some x \<Rightarrow> if 1 \<le> x then Some (x, []) else None
                    | None \<Rightarrow> None)"
| "parse_day [] = None"

text \<open>
  \<^verbatim>\<open>datetime.strptime(s, "%Y-%m-%d")\<close>: \<open>None\<close> stands for the \<^verbatim>\<open>ValueError\<close> of a text
  that does not match, of text left over, and of a date that does not exist.
\<close>

fun strptime :: "string \<Rightarrow> datetime option" where
  "strptime (y1 # y2 # y3 # y4 # dash # rest) =
     (case (digit_val y1, digit_val y2, digit_val y3, digit_val y4) of
        (Some a, Some b, Some c, Some d) \<Rightarrow>
          if dash \<noteq> CHR ''-'' then None
          else (case parse_month rest of
                  None \<Rightarrow> None
                | Some (m, rest') \<Rightarrow>
                    (case rest' of
                       [] \<Rightarrow> None
                     | dash' # rest'' \<Rightarrow>
                         if dash' \<noteq> CHR ''-'' then None
                         else (case parse_day rest'' of
                                 None \<Rightarrow> None
                               | Some (dd, left) \<Rightarrow>
                                   let y = 1000 * a + 100 * b + 10 * c + d in
                                   if left \<noteq> [] \<or> y < 1 \<or> days_in_month y m < dd then None
                                   else Some (ymd2ord y m dd))))
      | _ \<Rightarrow> None)"
| "strptime _ = None"

section \<open>Week start\<close>

text \<open>
  What stops the script: the compiler's \<^verbatim>\<open>SyntaxError\<close>, the \<^verbatim>\<open>OverflowError\<close> of a date
  before day 1, and the \<^verbatim>\<open>UnboundLocalError\<close> of a local read before it is assigned.
\<close>

datatype error = SyntaxError | OverflowError | UnboundLocalError

text \<open>
  \<^verbatim>\<open>get_week_start\<close>, lines 71 to 75. \<open>week_start_day\<close> is its local \<^verbatim>\<open>monday\<close>; the
  subtraction of line 74 raises \<^verbatim>\<open>OverflowError\<close> when the result is before day 1, which
  happens in the first week of year 1 only.
\<close>

definition week_start_day :: "datetime \<Rightarrow> datetime" where
  "week_start_day date = (let days_since_monday = weekday date in date - (days_since_monday + 1))"

definition get_week_start :: "datetime \<Rightarrow> error + string" where
  "get_week_start date =
     (let monday = week_start_day date in
      if monday < 1 then Inl OverflowError else Inr (strftime monday))"

section \<open>Data\<close>

text \<open>
  The persisted dictionary of \<^verbatim>\<open>load_data\<close> (lines 53 to 59) and the Telegram objects the
  script reads. Dictionaries whose keys are data are association lists in insertion
  order, read with \<^const>\<open>map_of\<close>; \<^verbatim>\<open>d[k] = v\<close> is \<^const>\<open>AList.update\<close> (in place for a
  key already there, at the end for a new one) and \<^verbatim>\<open>del d[k]\<close> is \<^const>\<open>AList.delete\<close>.
  A key that the script reads with \<^verbatim>\<open>.get\<close> is an optional field; a key it reads with
  \<^verbatim>\<open>[...]\<close> is a field. The \<^verbatim>\<open>"id"\<close> of a user is the field \<open>id_num\<close>, and the keys of a
  recorded vote carry the prefix \<open>vote\<close>.
\<close>

record poll_info =
  message_id :: int
  date :: "string option"

record user =
  id_num :: int
  username :: "string option"
  first_name :: "string option"

record poll_answer =
  poll_id :: string
  user :: user
  option_ids :: "int list"

record update =
  update_id :: "int option"
  poll_answer :: "poll_answer option"

record vote =
  vote_username :: string
  vote_poll_id :: string
  vote_value :: int

record data =
  current_week_start :: "string option"
  active_polls :: "(string \<times> poll_info) list"
  votes :: "(string \<times> int) list"
  processed_polls :: "string set"
  last_update_id :: "int option"

text \<open>\<^verbatim>\<open>data.get("last_update_id", 0)\<close> and \<^verbatim>\<open>update.get("update_id", 0)\<close>.\<close>

definition get_last_update_id :: "data \<Rightarrow> int" where
  "get_last_update_id data = (case last_update_id data of None \<Rightarrow> 0 | Some c \<Rightarrow> c)"

definition get_update_id :: "update \<Rightarrow> int" where
  "get_update_id update = (case update_id update of None \<Rightarrow> 0 | Some i \<Rightarrow> i)"

text \<open>
  What the script sends to Telegram. The wording of a message is not modelled: a summary
  is the list of its lines, one respondent and total each.
\<close>

datatype message = NoVotesRecorded | WeeklySummary "(string \<times> int) list"

datatype action = SendMessage message | GetUpdates int | SendPoll

section \<open>Vote aggregation\<close>

text \<open>
  Line 147: \<^verbatim>\<open>user.get("username") or user.get("first_name", f"User_{user_id}")\<close>. An
  absent and an empty username are both false for \<^verbatim>\<open>or\<close>.
\<close>

definition username_of :: "user \<Rightarrow> string" where
  "username_of usr =
     (let user_id = str_int (id_num usr);
          fallback = (case first_name usr of None \<Rightarrow> ''User_'' @ user_id | Some f \<Rightarrow> f)
      in case username usr of
           None \<Rightarrow> fallback
         | Some n \<Rightarrow> if n = [] then fallback else n)"

text \<open>The body of the loop of \<^verbatim>\<open>process_updates\<close>, lines 135 to 162.\<close>

definition process_update ::
  "string set \<Rightarrow> (string \<times> vote) list \<times> int \<Rightarrow> update \<Rightarrow> (string \<times> vote) list \<times> int" where
  "process_update active_poll_ids acc update =
     (case acc of (user_votes, highest_update_id) \<Rightarrow>
        (let highest_update_id = max highest_update_id (get_update_id update) in
         (case poll_answer update of
            None \<Rightarrow> (user_votes, highest_update_id)
          | Some pa \<Rightarrow>
              (if poll_id pa \<in> active_poll_ids then
                 (case option_ids pa of
                    [] \<Rightarrow> (user_votes, highest_update_id)
                  | first # _ \<Rightarrow>
                      (let name = username_of (user pa);
                           value = first + 1;
                           vote_key = name @ ''_'' @ poll_id pa
                       in (if map_of user_votes vote_key = None
                           then (user_votes @
                                   [(vote_key, \<lparr>vote_username = name, vote_poll_id = poll_id pa,
                                                vote_value = value\<rparr>)],
                                 highest_update_id)
                           else (user_votes, highest_update_id))))
               else (user_votes, highest_update_id)))))"

definition process_updates :: "update list \<Rightarrow> string set \<Rightarrow> (string \<times> vote) list \<times> int" where
  "process_updates updates active_poll_ids =
     foldl (process_update active_poll_ids) ([], 0) updates"

text \<open>The body of the loop of \<^verbatim>\<open>aggregate_votes\<close>, lines 173 to 178, and the function.\<close>

definition add_vote :: "(string \<times> int) list \<Rightarrow> string \<times> vote \<Rightarrow> (string \<times> int) list" where
  "add_vote total_votes entry =
     (let name = vote_username (snd entry);
          value = vote_value (snd entry);
          total_votes = (if map_of total_votes name = None
                         then AList.update name 0 total_votes else total_votes)
      in case map_of total_votes name of
           None \<Rightarrow> total_votes
         | Some cur \<Rightarrow> AList.update name (cur + value) total_votes)"

definition aggregate_votes ::
  "(string \<times> vote) list \<Rightarrow> (string \<times> int) list \<Rightarrow> (string \<times> int) list" where
  "aggregate_votes poll_votes existing_votes = foldl add_vote existing_votes poll_votes"

section \<open>Weekly summary and expiry\<close>

text \<open>
  \<^verbatim>\<open>send_weekly_summary\<close>, lines 182 to 204: one \<^verbatim>\<open>sendMessage\<close> call, whose failure is
  caught and logged. \<^verbatim>\<open>sorted(..., reverse=True)\<close> is stable, as \<^const>\<open>sort_key\<close> is.
\<close>

definition send_weekly_summary :: "(string \<times> int) list \<Rightarrow> action list" where
  "send_weekly_summary totals =
     (if totals = [] then [SendMessage NoVotesRecorded]
      else [SendMessage (WeeklySummary (sort_key (\<lambda>x. - snd x) totals))])"

text \<open>
  \<^verbatim>\<open>clean_old_polls\<close>, lines 206 to 227. \<open>old_poll\<close> is the body of the first loop: whether
  the poll goes to \<^verbatim>\<open>polls_to_remove\<close>. \<open>remove_poll\<close> is the body of the second.
\<close>

definition old_poll :: "datetime \<Rightarrow> poll_info \<Rightarrow> bool" where
  "old_poll current_date poll_info =
     (case date poll_info of
        None \<Rightarrow> False
      | Some poll_date_str \<Rightarrow>
          if poll_date_str = [] then False
          else (case strptime poll_date_str of
                  None \<Rightarrow> True
                | Some poll_date \<Rightarrow> let days_old = current_date - poll_date in 7 < days_old))"

definition remove_poll :: "string \<Rightarrow> data \<Rightarrow> data" where
  "remove_poll pid data =
     data\<lparr>active_polls := AList.delete pid (active_polls data),
          processed_polls := processed_polls data - {pid}\<rparr>"

definition clean_old_polls :: "datetime \<Rightarrow> data \<Rightarrow> data" where
  "clean_old_polls current_date data =
     (let polls_to_remove =
            map fst (filter (\<lambda>item. old_poll current_date (snd item)) (active_polls data))
      in fold remove_poll polls_to_remove data)"

section \<open>The daily run\<close>

text \<open>
  \<^verbatim>\<open>run_daily_task\<close>, lines 229 to 300, block by block in the order of the text.

  Lines 240 to 259: the batch held by the local \<^verbatim>\<open>updates\<close> is processed, the cursor is
  raised and the votes are added to the totals.
\<close>

definition consume_updates :: "update list \<Rightarrow> data \<Rightarrow> data" where
  "consume_updates updates data =
     (if updates \<noteq> [] then
        let active_poll_ids = set (map fst (active_polls data));
            result = process_updates updates active_poll_ids;
            poll_votes = fst result;
            highest_update_id = snd result;
            data = (if get_last_update_id data < highest_update_id
                    then data\<lparr>last_update_id := Some highest_update_id\<rparr> else data)
        in if poll_votes \<noteq> []
           then data\<lparr>votes := aggregate_votes poll_votes (votes data)\<rparr> else data
      else data)"

text \<open>
  Lines 260 to 277. Line 261 is \<^verbatim>\<open>if now.weekday() == 6 and:\<close>: the right operand of the
  \<^verbatim>\<open>and\<close> is not in the file. It is the parameter \<open>operand\<close> here, its truth value as a
  function of the clock read and the state; nothing is assumed about it.
  \<open>current_week\<close> is the local of line 238.
\<close>

definition week_cycle ::
  "(datetime \<Rightarrow> data \<Rightarrow> bool) \<Rightarrow> datetime \<Rightarrow> string \<Rightarrow> data \<Rightarrow> data \<times> action list" where
  "week_cycle operand now current_week data =
     (if weekday now = 6 \<and> operand now data then
        let sent = (if votes data \<noteq> [] then send_weekly_summary (votes data) else []);
            cursor = get_last_update_id data
        in (\<lparr>current_week_start = Some current_week, active_polls = [], votes = [],
             processed_polls = {}, last_update_id = Some cursor\<rparr>, sent)
      else (data, []))"

text \<open>
  Lines 279 to 281: \<^verbatim>\<open>get_new_updates\<close> asks for the updates from the cursor plus one and
  returns what Telegram answers, or the empty list when the request fails. \<open>fetch\<close> is
  that answer as a function of the offset.
\<close>

definition get_new_updates :: "(int \<Rightarrow> update list) \<Rightarrow> int \<Rightarrow> update list \<times> action list" where
  "get_new_updates fetch cursor = (fetch (cursor + 1), [GetUpdates (cursor + 1)])"

text \<open>
  Lines 282 to 293: \<open>posted\<close> is the poll id and message id that \<^verbatim>\<open>post_poll\<close> returns, or
  \<open>None\<close> when it raises.
\<close>

definition register_poll :: "datetime \<Rightarrow> (string \<times> int) option \<Rightarrow> data \<Rightarrow> data" where
  "register_poll now posted data =
     (let current_date = strftime now in
      case posted of
        None \<Rightarrow> data
      | Some (pid, mid) \<Rightarrow>
          data\<lparr>active_polls :=
                 AList.update pid \<lparr>message_id = mid, date = Some current_date\<rparr> (active_polls data)\<rparr>)"

text \<open>
  The statements of lines 240 to 298 in the order of the text, for given values of the
  locals they read: \<^verbatim>\<open>updates\<close>, \<^verbatim>\<open>now\<close> (the clock read of line 237), \<^verbatim>\<open>current_week\<close>
  and \<^verbatim>\<open>data\<close>; \<open>clean_now\<close> is the clock read of line 208. This is not a function of
  the source and no run of the source gets this far: \<^verbatim>\<open>run_daily_task\<close> has no batch to
  start from, see below. It says what the statements would do from a state in which
  \<^verbatim>\<open>updates\<close> were bound. The result is the dictionary given to \<^verbatim>\<open>save_data\<close> with the
  calls made on the way. The batch fetched on line 281 is assigned to \<^verbatim>\<open>updates\<close> and not
  read again.
\<close>

definition run_daily_task_from ::
  "(datetime \<Rightarrow> data \<Rightarrow> bool) \<Rightarrow> update list \<Rightarrow> datetime \<Rightarrow> string \<Rightarrow> datetime \<Rightarrow>
   (int \<Rightarrow> update list) \<Rightarrow> (string \<times> int) option \<Rightarrow> data \<Rightarrow> data \<times> action list" where
  "run_daily_task_from operand updates now current_week clean_now fetch posted data =
     (let data = consume_updates updates data;
          cycle = week_cycle operand now current_week data;
          data = fst cycle;
          fetched = get_new_updates fetch (get_last_update_id data);
          updates = fst fetched;
          data = register_poll now posted data;
          data = clean_old_polls clean_now data
      in (data, snd cycle @ snd fetched @ [SendPoll]))"

text \<open>
  The run itself, \<^verbatim>\<open>run_daily_task\<close>, lines 229 to 300. The first argument is the right
  operand of the \<^verbatim>\<open>and\<close> of line 261. \<open>None\<close> is the file as it is: the line does not
  parse, Python refuses the file with \<^verbatim>\<open>SyntaxError\<close> and no statement of it runs.
  \<open>Some operand\<close> is the file with an operand written there. Then line 238 computes
  \<^verbatim>\<open>current_week\<close>, and line 240 reads \<^verbatim>\<open>updates\<close>, a local of the function that is
  assigned on line 281 only: it is unbound, Python raises \<^verbatim>\<open>UnboundLocalError\<close>, nothing
  catches it, and \<^verbatim>\<open>save_data\<close> is not reached.
\<close>

definition run_daily_task ::
  "(datetime \<Rightarrow> data \<Rightarrow> bool) option \<Rightarrow> datetime \<Rightarrow> datetime \<Rightarrow> (int \<Rightarrow> update list) \<Rightarrow>
   (string \<times> int) option \<Rightarrow> data \<Rightarrow> error + data \<times> action list" where
  "run_daily_task line_261 now clean_now fetch posted data =
     (case line_261 of
        None \<Rightarrow> Inl SyntaxError
      | Some operand \<Rightarrow>
          (case get_week_start now of
             Inl e \<Rightarrow> Inl e
           | Inr current_week \<Rightarrow>
               (let updates = (None :: update list option) in
                case updates of
                  None \<Rightarrow> Inl UnboundLocalError
                | Some batch \<Rightarrow>
                    Inr (run_daily_task_from operand batch now current_week clean_now fetch
                           posted data))))"

section \<open>Notions of the statements\<close>


definition vote_key :: "poll_answer \<Rightarrow> string" where
  "vote_key pa = username_of (user pa) @ ''_'' @ poll_id pa"

definition vote_of :: "poll_answer \<Rightarrow> vote" where
  "vote_of pa = \<lparr>vote_username = username_of (user pa), vote_poll_id = poll_id pa,
                 vote_value = (case option_ids pa of [] \<Rightarrow> 0 | i # _ \<Rightarrow> i + 1)\<rparr>"


section \<open>Evaluation of the date functions\<close>

text \<open>The days of March 2024 that the examples use: two Sundays, a Monday and a Friday.\<close>

lemma day_2024_03_10: "ymd2ord 2024 3 10 = 738955"
  by code_simp

lemma day_2024_03_11: "ymd2ord 2024 3 11 = 738956"
  by code_simp

lemma day_2024_03_15: "ymd2ord 2024 3 15 = 738960"
  by code_simp

lemma day_2024_03_17: "ymd2ord 2024 3 17 = 738962"
  by code_simp

lemma weekday_examples:
  "weekday 738955 = 6" "weekday 738956 = 0" "weekday 738960 = 4" "weekday 738962 = 6"
  by code_simp+

lemma get_week_start_examples:
  "get_week_start 738956 = Inr ''2024-03-10''" "get_week_start 738960 = Inr ''2024-03-10''"
  "get_week_start 738962 = Inr ''2024-03-10''"
  by code_simp+

lemma strftime_examples: "strftime 738955 = ''2024-03-10''"
  by code_simp

lemma strptime_examples:
  "strptime ''2024-03-07'' = Some 738952" "strptime ''2024-03-08'' = Some 738953"
  "strptime ''2024-03-14'' = Some 738959" "strptime ''2024-03-16'' = Some 738961"
  "strptime ''garbage'' = None" "strptime [] = None"
  by code_simp+

lemmas date_eval =
  day_2024_03_10 day_2024_03_11 day_2024_03_15 day_2024_03_17 weekday_examples
  get_week_start_examples strftime_examples strptime_examples

lemma weekday_week_start_day: "weekday (week_start_day d) = 6"
  unfolding week_start_day_def weekday_def Let_def by presburger

lemma week_start_day_sunday: "weekday d = 6 \<Longrightarrow> week_start_day d = d - 7"
  by (simp add: week_start_day_def Let_def)

section \<open>The cursor\<close>

lemma fold_remove_poll_cursor: "last_update_id (fold remove_poll ps d) = last_update_id d"
  by (induction ps arbitrary: d) (simp_all add: remove_poll_def)

lemma clean_old_polls_cursor: "get_last_update_id (clean_old_polls cn d) = get_last_update_id d"
  by (simp add: clean_old_polls_def get_last_update_id_def fold_remove_poll_cursor)

lemma consume_updates_cursor:
  "get_last_update_id (consume_updates ups d) =
     (if ups = [] then get_last_update_id d
      else max (get_last_update_id d)
             (snd (process_updates ups (set (map fst (active_polls d))))))"
  by (simp add: consume_updates_def get_last_update_id_def Let_def)


section \<open>The week cycle\<close>

text \<open>
  Claim C2. The claim is that the reset of a Sunday run sets the week start to the new
  period. On Sunday 2024-03-17 \<^verbatim>\<open>current_week\<close> is the text 2024-03-10, the day seven days
  before the run: \<^verbatim>\<open>get_week_start\<close> subtracts the weekday plus one. The block of lines
  260 to 277 writes that text when the operand missing from line 261 holds, and resets
  nothing when it does not; and the file as it is does not get there, it stops with
  \<^verbatim>\<open>SyntaxError\<close>.
\<close>

theorem sunday_reset_week_start:
  "weekday (ymd2ord 2024 3 17) = 6
   \<and> get_week_start (ymd2ord 2024 3 17) = Inr ''2024-03-10''
   \<and> strftime (ymd2ord 2024 3 17 - 7) = ''2024-03-10''
   \<and> week_cycle operand (ymd2ord 2024 3 17) ''2024-03-10''
        \<lparr>current_week_start = Some ''2024-03-03'',
         active_polls = [(''p1'', \<lparr>message_id = 1, date = Some ''2024-03-16''\<rparr>)],
         votes = [(''alice'', 5)], processed_polls = {''p0''}, last_update_id = Some 42\<rparr>
     = (if operand (ymd2ord 2024 3 17)
             \<lparr>current_week_start = Some ''2024-03-03'',
              active_polls = [(''p1'', \<lparr>message_id = 1, date = Some ''2024-03-16''\<rparr>)],
              votes = [(''alice'', 5)], processed_polls = {''p0''}, last_update_id = Some 42\<rparr>
        then (\<lparr>current_week_start = Some ''2024-03-10'', active_polls = [], votes = [],
               processed_polls = {}, last_update_id = Some 42\<rparr>,
              [SendMessage (WeeklySummary [(''alice'', 5)])])
        else (\<lparr>current_week_start = Some ''2024-03-03'',
               active_polls = [(''p1'', \<lparr>message_id = 1, date = Some ''2024-03-16''\<rparr>)],
               votes = [(''alice'', 5)], processed_polls = {''p0''}, last_update_id = Some 42\<rparr>,
              []))
   \<and> run_daily_task None (ymd2ord 2024 3 17) (ymd2ord 2024 3 17) (\<lambda>offset. []) None
        \<lparr>current_week_start = Some ''2024-03-03'',
         active_polls = [(''p1'', \<lparr>message_id = 1, date = Some ''2024-03-16''\<rparr>)],
         votes = [(''alice'', 5)], processed_polls = {''p0''}, last_update_id = Some 42\<rparr>
     = Inl SyntaxError"
  by (simp add: run_daily_task_def week_cycle_def send_weekly_summary_def
      get_last_update_id_def Let_def date_eval)

text \<open>
  Claim C8. The claim is that a Sunday run sends a summary exactly when the scores are
  not empty, and resets also when they are empty. On Sunday 2024-03-17 with the scores
  of alice and bob the file as it is stops with \<^verbatim>\<open>SyntaxError\<close> and sends nothing; with
  line 261 completed the run stops on line 240 with \<^verbatim>\<open>UnboundLocalError\<close>, before the
  week cycle. The block of lines 260 to 277 itself sends the summary, and with empty
  scores resets without a message, exactly when the operand missing from line 261
  holds.
\<close>

theorem sunday_summary_not_sent:
  "run_daily_task None (ymd2ord 2024 3 17) (ymd2ord 2024 3 17) (\<lambda>offset. []) (Some (''p2'', 2))
     \<lparr>current_week_start = Some ''2024-03-03'', active_polls = [],
      votes = [(''alice'', 5), (''bob'', 7)], processed_polls = {}, last_update_id = Some 42\<rparr>
   = Inl SyntaxError
   \<and> run_daily_task (Some operand) (ymd2ord 2024 3 17) (ymd2ord 2024 3 17) (\<lambda>offset. [])
     (Some (''p2'', 2))
     \<lparr>current_week_start = Some ''2024-03-03'', active_polls = [],
      votes = [(''alice'', 5), (''bob'', 7)], processed_polls = {}, last_update_id = Some 42\<rparr>
   = Inl UnboundLocalError
   \<and> snd (week_cycle operand (ymd2ord 2024 3 17) ''2024-03-10''
        \<lparr>current_week_start = Some ''2024-03-03'', active_polls = [],
         votes = [(''alice'', 5), (''bob'', 7)], processed_polls = {}, last_update_id = Some 42\<rparr>)
     = (if operand (ymd2ord 2024 3 17)
             \<lparr>current_week_start = Some ''2024-03-03'', active_polls = [],
              votes = [(''alice'', 5), (''bob'', 7)], processed_polls = {},
              last_update_id = Some 42\<rparr>
        then [SendMessage (WeeklySummary [(''bob'', 7), (''alice'', 5)])] else [])
   \<and> week_cycle operand (ymd2ord 2024 3 17) ''2024-03-10''
        \<lparr>current_week_start = Some ''2024-03-03'',
         active_polls = [(''p1'', \<lparr>message_id = 1, date = Some ''2024-03-16''\<rparr>)],
         votes = [], processed_polls = {}, last_update_id = Some 42\<rparr>
     = (if operand (ymd2ord 2024 3 17)
             \<lparr>current_week_start = Some ''2024-03-03'',
              active_polls = [(''p1'', \<lparr>message_id = 1, date = Some ''2024-03-16''\<rparr>)],
              votes = [], processed_polls = {}, last_update_id = Some 42\<rparr>
        then (\<lparr>current_week_start = Some ''2024-03-10'', active_polls = [], votes = [],
               processed_polls = {}, last_update_id = Some 42\<rparr>, [])
        else (\<lparr>current_week_start = Some ''2024-03-03'',
               active_polls = [(''p1'', \<lparr>message_id = 1, date = Some ''2024-03-16''\<rparr>)],
               votes = [], processed_polls = {}, last_update_id = Some 42\<rparr>, []))"
  by (simp add: run_daily_task_def week_cycle_def send_weekly_summary_def
      get_last_update_id_def Let_def date_eval)

text \<open>
  Claim C3. The run reads \<^verbatim>\<open>updates\<close> on line 240, before the week cycle, and fetches the
  batch on line 281, after it. The file as it is stops with \<^verbatim>\<open>SyntaxError\<close>; with line
  261 completed, whatever the operand, the run stops on line 240 with
  \<^verbatim>\<open>UnboundLocalError\<close>. Started with \<^verbatim>\<open>updates\<close> bound to the empty list, the statements
  of the same Sunday run send the summary and reset (when the operand holds), then
  fetch, then post, and the vote of the fetched batch reaches neither the scores nor
  the cursor.
\<close>

theorem run_never_aggregates_fetched_batch:
  "run_daily_task None (ymd2ord 2024 3 17) (ymd2ord 2024 3 17)
     (\<lambda>offset. [\<lparr>update_id = Some 43,
                   poll_answer = Some \<lparr>poll_id = ''p1'',
                     user = \<lparr>id_num = 7, username = Some ''bob'', first_name = Some ''Bob''\<rparr>,
                     option_ids = [2]\<rparr>\<rparr>])
     None
     \<lparr>current_week_start = Some ''2024-03-03'',
      active_polls = [(''p1'', \<lparr>message_id = 1, date = Some ''2024-03-16''\<rparr>)],
      votes = [(''alice'', 5)], processed_polls = {}, last_update_id = Some 42\<rparr>
   = Inl SyntaxError
   \<and> run_daily_task (Some operand) (ymd2ord 2024 3 17) (ymd2ord 2024 3 17)
     (\<lambda>offset. [\<lparr>update_id = Some 43,
                   poll_answer = Some \<lparr>poll_id = ''p1'',
                     user = \<lparr>id_num = 7, username = Some ''bob'', first_name = Some ''Bob''\<rparr>,
                     option_ids = [2]\<rparr>\<rparr>])
     None
     \<lparr>current_week_start = Some ''2024-03-03'',
      active_polls = [(''p1'', \<lparr>message_id = 1, date = Some ''2024-03-16''\<rparr>)],
      votes = [(''alice'', 5)], processed_polls = {}, last_update_id = Some 42\<rparr>
   = Inl UnboundLocalError
   \<and> run_daily_task_from operand [] (ymd2ord 2024 3 17) ''2024-03-10'' (ymd2ord 2024 3 17)
     (\<lambda>offset. [\<lparr>update_id = Some 43,
                   poll_answer = Some \<lparr>poll_id = ''p1'',
                     user = \<lparr>id_num = 7, username = Some ''bob'', first_name = Some ''Bob''\<rparr>,
                     option_ids = [2]\<rparr>\<rparr>])
     None
     \<lparr>current_week_start = Some ''2024-03-03'',
      active_polls = [(''p1'', \<lparr>message_id = 1, date = Some ''2024-03-16''\<rparr>)],
      votes = [(''alice'', 5)], processed_polls = {}, last_update_id = Some 42\<rparr>
   = (if operand (ymd2ord 2024 3 17)
           \<lparr>current_week_start = Some ''2024-03-03'',
            active_polls = [(''p1'', \<lparr>message_id = 1, date = Some ''2024-03-16''\<rparr>)],
            votes = [(''alice'', 5)], processed_polls = {}, last_update_id = Some 42\<rparr>
      then (\<lparr>current_week_start = Some ''2024-03-10'', active_polls = [], votes = [],
             processed_polls = {}, last_update_id = Some 42\<rparr>,
            [SendMessage (WeeklySummary [(''alice'', 5)]), GetUpdates 43, SendPoll])
      else (\<lparr>current_week_start = Some ''2024-03-03'',
             active_polls = [(''p1'', \<lparr>message_id = 1, date = Some ''2024-03-16''\<rparr>)],
             votes = [(''alice'', 5)], processed_polls = {}, last_update_id = Some 42\<rparr>,
            [GetUpdates 43, SendPoll]))"
  by (simp add: run_daily_task_def run_daily_task_from_def consume_updates_def week_cycle_def
      send_weekly_summary_def get_new_updates_def register_poll_def clean_old_polls_def
      old_poll_def get_last_update_id_def Let_def date_eval del: strptime.simps)

section \<open>The week start\<close>

text \<open>
  Claim C4. For Monday 2024-03-11 \<^verbatim>\<open>get_week_start\<close> returns 2024-03-10, the Sunday
  before it, where its docstring promises the Monday of the week.
\<close>

theorem get_week_start_of_monday:
  "weekday (ymd2ord 2024 3 11) = 0
   \<and> get_week_start (ymd2ord 2024 3 11) = Inr ''2024-03-10''
   \<and> weekday (ymd2ord 2024 3 10) = 6"
  by (simp add: date_eval)

section \<open>Processing a batch\<close>


lemma process_update_fst:
  "fst (process_update act (uv, h) u) =
     (case poll_answer u of
        None \<Rightarrow> uv
      | Some pa \<Rightarrow>
          if poll_id pa \<in> act \<and> option_ids pa \<noteq> [] \<and> map_of uv (vote_key pa) = None
          then uv @ [(vote_key pa, vote_of pa)] else uv)"
  by (simp add: process_update_def Let_def vote_key_def vote_of_def split: option.splits list.splits)








section \<open>Totals\<close>

lemma add_vote_map_of:
  "map_of (add_vote tv e) =
     (map_of tv)(vote_username (snd e) \<mapsto>
        (case map_of tv (vote_username (snd e)) of None \<Rightarrow> 0 | Some c \<Rightarrow> c)
        + vote_value (snd e))"
  by (cases "map_of tv (vote_username (snd e))")
     (simp_all add: add_vote_def Let_def update_conv')

lemma aggregate_keeps_and_grows:
  "\<forall>e\<in>set pv. 0 \<le> vote_value (snd e) \<Longrightarrow> map_of ex k = Some v \<Longrightarrow>
   \<exists>v'. map_of (foldl add_vote ex pv) k = Some v' \<and> v \<le> v'"
proof (induction pv arbitrary: ex v)
  case Nil
  then show ?case by simp
next
  case (Cons e pv)
  have "\<exists>w. map_of (add_vote ex e) k = Some w \<and> v \<le> w"
    using Cons.prems by (auto simp: add_vote_map_of)
  then obtain w where w: "map_of (add_vote ex e) k = Some w" "v \<le> w" by blast
  have "\<forall>e\<in>set pv. 0 \<le> vote_value (snd e)" using Cons.prems(1) by simp
  from Cons.IH [OF this w(1)] obtain v' where
    "map_of (foldl add_vote (add_vote ex e) pv) k = Some v'" "w \<le> v'" by blast
  then show ?case using w(2) by auto
qed

lemma aggregate_nonneg:
  "\<forall>e\<in>set pv. 0 \<le> vote_value (snd e) \<Longrightarrow> \<forall>k v. map_of ex k = Some v \<longrightarrow> 0 \<le> v \<Longrightarrow>
   map_of (foldl add_vote ex pv) k = Some v' \<Longrightarrow> 0 \<le> v'"
proof (induction pv arbitrary: ex)
  case Nil
  then show ?case by simp
next
  case (Cons e pv)
  have step: "\<forall>k v. map_of (add_vote ex e) k = Some v \<longrightarrow> 0 \<le> v"
    using Cons.prems(1,2) by (auto simp: add_vote_map_of split: option.splits if_splits)
  have rest: "\<forall>e\<in>set pv. 0 \<le> vote_value (snd e)" using Cons.prems(1) by simp
  show ?case using Cons.IH [OF rest step] Cons.prems(3) by simp
qed

lemma foldl_process_update_values:
  "\<forall>u\<in>set ups. \<forall>pa. poll_answer u = Some pa \<longrightarrow> (\<forall>i\<in>set (option_ids pa). 0 \<le> i) \<Longrightarrow>
   \<forall>e\<in>set (fst acc). 1 \<le> vote_value (snd e) \<Longrightarrow>
   \<forall>e\<in>set (fst (foldl (process_update act) acc ups)). 1 \<le> vote_value (snd e)"
proof (induction ups arbitrary: acc)
  case Nil
  then show ?case by simp
next
  case (Cons u ups)
  obtain uv h where acc: "acc = (uv, h)" by (cases acc)
  have "\<forall>e\<in>set (fst (process_update act (uv, h) u)). 1 \<le> vote_value (snd e)"
    using Cons.prems acc
    by (auto simp: process_update_fst vote_of_def split: option.splits list.splits)
  moreover have "\<forall>u\<in>set ups. \<forall>pa. poll_answer u = Some pa \<longrightarrow> (\<forall>i\<in>set (option_ids pa). 0 \<le> i)"
    using Cons.prems(1) by simp
  ultimately show ?case
    using Cons.IH [of "process_update act acc u"] acc by simp
qed

text \<open>
  Claim C10. When no selected option index of the batch is negative and no existing
  total is negative, every recorded vote value is at least 1, every respondent with an
  existing total keeps a total that is at least the old one, and no total of the
  result is negative.
\<close>

theorem aggregation_monotone:
  assumes ids: "\<forall>u\<in>set ups. \<forall>pa. poll_answer u = Some pa \<longrightarrow> (\<forall>i\<in>set (option_ids pa). 0 \<le> i)"
    and ex: "\<forall>k v. map_of existing k = Some v \<longrightarrow> 0 \<le> v"
  shows "(\<forall>e\<in>set (fst (process_updates ups act)). 1 \<le> vote_value (snd e))
    \<and> (\<forall>k v. map_of existing k = Some v \<longrightarrow>
          (\<exists>v'. map_of (aggregate_votes (fst (process_updates ups act)) existing) k = Some v'
                \<and> v \<le> v'))
    \<and> (\<forall>k v'. map_of (aggregate_votes (fst (process_updates ups act)) existing) k = Some v'
          \<longrightarrow> 0 \<le> v')"
proof -
  have ge1: "\<forall>e\<in>set (fst (process_updates ups act)). 1 \<le> vote_value (snd e)"
    using foldl_process_update_values [OF ids, of "([], 0)" act]
    by (simp add: process_updates_def)
  then have ge0: "\<forall>e\<in>set (fst (process_updates ups act)). 0 \<le> vote_value (snd e)"
    by force
  show ?thesis
    using ge1 aggregate_keeps_and_grows [OF ge0] aggregate_nonneg [OF ge0 ex]
    unfolding aggregate_votes_def by blast
qed


theorem aggregation_monotone_witness:
  "aggregate_votes
     (fst (process_updates
        [\<lparr>update_id = Some 43,
          poll_answer = Some \<lparr>poll_id = ''p1'',
            user = \<lparr>id_num = 1, username = Some ''alice'', first_name = None\<rparr>,
            option_ids = [0]\<rparr>\<rparr>,
         \<lparr>update_id = Some 44,
          poll_answer = Some \<lparr>poll_id = ''p1'',
            user = \<lparr>id_num = 2, username = Some ''bob'', first_name = None\<rparr>,
            option_ids = [5]\<rparr>\<rparr>]
        {''p1''}))
     [(''alice'', 5)]
   = [(''alice'', 6), (''bob'', 6)]"
proof -
  let ?ups = "[\<lparr>update_id = Some 43,
          poll_answer = Some \<lparr>poll_id = ''p1'',
            user = \<lparr>id_num = 1, username = Some ''alice'', first_name = None\<rparr>,
            option_ids = [0]\<rparr>\<rparr>,
         \<lparr>update_id = Some 44,
          poll_answer = Some \<lparr>poll_id = ''p1'',
            user = \<lparr>id_num = 2, username = Some ''bob'', first_name = None\<rparr>,
            option_ids = [5::int]\<rparr>\<rparr>]"
  have ids: "\<forall>u\<in>set ?ups. \<forall>pa. poll_answer u = Some pa \<longrightarrow> (\<forall>i\<in>set (option_ids pa). 0 \<le> i)"
    by simp
  have ex: "\<forall>k v. map_of [(''alice'', 5::int)] k = Some v \<longrightarrow> 0 \<le> v"
    by simp
  note aggregation_monotone [OF ids ex, of "{''p1''}"]
  then show ?thesis
    by (simp add: process_updates_def process_update_def get_update_id_def username_of_def
        aggregate_votes_def add_vote_def Let_def)
qed

section \<open>The respondent key\<close>

text \<open>
  Claim C9, as stated, fails: without a username the key is the first name, so the user
  with id 7 is counted under Bob, under Rob after a change of name, and together with
  the user with id 8 who is also called Bob; none of these keys is made from the id.
\<close>

theorem respondent_key_not_from_id_alone:
  "username_of \<lparr>id_num = 7, username = None, first_name = Some ''Bob''\<rparr> = ''Bob''
   \<and> username_of \<lparr>id_num = 7, username = None, first_name = Some ''Rob''\<rparr> = ''Rob''
   \<and> username_of \<lparr>id_num = 8, username = None, first_name = Some ''Bob''\<rparr> = ''Bob''
   \<and> ''User_'' @ str_int 7 = ''User_7''"
  by code_simp

text \<open>
  Claim C9, amended. The key of a respondent is the username when it is present and not
  empty; otherwise the first name when the user has one; otherwise the text User, an
  underscore and the decimal user id. A vote event is recorded under that key.
\<close>

theorem respondent_key:
  "(\<forall>n. username u = Some n \<longrightarrow> n \<noteq> [] \<longrightarrow> username_of u = n)
   \<and> (username u = None \<or> username u = Some [] \<longrightarrow>
        (\<forall>f. first_name u = Some f \<longrightarrow> username_of u = f)
        \<and> (first_name u = None \<longrightarrow> username_of u = ''User_'' @ str_int (id_num u)))
   \<and> (\<forall>pa i rest. poll_answer e = Some pa \<longrightarrow> poll_id pa \<in> act \<longrightarrow> option_ids pa = i # rest \<longrightarrow>
        fst (process_update act ([], h) e) =
          [(username_of (user pa) @ ''_'' @ poll_id pa,
            \<lparr>vote_username = username_of (user pa), vote_poll_id = poll_id pa,
             vote_value = i + 1\<rparr>)])"
  by (auto simp: username_of_def process_update_def Let_def)

theorem respondent_key_witness:
  "username_of \<lparr>id_num = 1, username = Some ''alice'', first_name = Some ''Alice''\<rparr> = ''alice''
   \<and> username_of \<lparr>id_num = 7, username = None, first_name = Some ''Bob''\<rparr> = ''Bob''
   \<and> username_of \<lparr>id_num = 7, username = Some [], first_name = None\<rparr> = ''User_7''
   \<and> fst (process_update {''p1''} ([], 0)
        \<lparr>update_id = Some 43,
         poll_answer = Some \<lparr>poll_id = ''p1'',
           user = \<lparr>id_num = 7, username = None, first_name = Some ''Bob''\<rparr>,
           option_ids = [2, 4]\<rparr>\<rparr>)
      = [(''Bob_p1'', \<lparr>vote_username = ''Bob'', vote_poll_id = ''p1'', vote_value = 3\<rparr>)]"
proof -
  have seven: "str_int 7 = ''7''" by code_simp
  show ?thesis
    using respondent_key [of "\<lparr>id_num = 1, username = Some ''alice'', first_name = Some ''Alice''\<rparr>"
        "\<lparr>update_id = Some 43,
         poll_answer = Some \<lparr>poll_id = ''p1'',
           user = \<lparr>id_num = 7, username = None, first_name = Some ''Bob''\<rparr>,
           option_ids = [2, 4]\<rparr>\<rparr>" "{''p1''}" 0]
      respondent_key [of "\<lparr>id_num = 7, username = None, first_name = Some ''Bob''\<rparr>"]
      respondent_key [of "\<lparr>id_num = 7, username = Some [], first_name = None\<rparr>"]
    by (simp add: seven)
qed

section \<open>The first vote of a respondent on a poll\<close>












section \<open>Expiry\<close>

lemma delete_filter: "AList.delete k xs = filter (\<lambda>e. fst e \<noteq> k) xs"
  by (induction xs) auto

lemma fold_remove_poll_active:
  "active_polls (fold remove_poll ps d) = filter (\<lambda>e. fst e \<notin> set ps) (active_polls d)"
proof (induction ps arbitrary: d)
  case Nil
  show ?case by simp
next
  case (Cons p ps)
  show ?case
    using Cons.IH [of "remove_poll p d"]
    by (simp add: remove_poll_def delete_filter conj_commute)
qed

lemma fold_remove_poll_processed:
  "processed_polls (fold remove_poll ps d) = processed_polls d - set ps"
  by (induction ps arbitrary: d) (auto simp: remove_poll_def)

lemma fold_remove_poll_rest:
  "votes (fold remove_poll ps d) = votes d
   \<and> current_week_start (fold remove_poll ps d) = current_week_start d"
  by (induction ps arbitrary: d) (simp_all add: remove_poll_def)

lemma clean_old_polls_active:
  assumes "distinct (map fst (active_polls d))"
  shows "active_polls (clean_old_polls today d) =
    filter (\<lambda>e. \<not> old_poll today (snd e)) (active_polls d)"
proof -
  have "fst e \<notin> fst ` set (filter (\<lambda>item. old_poll today (snd item)) (active_polls d))
      \<longleftrightarrow> \<not> old_poll today (snd e)"
    if "e \<in> set (active_polls d)" for e
  proof -
    have "snd e' = snd e" if "e' \<in> set (active_polls d)" "fst e' = fst e" for e'
      using eq_key_imp_eq_value [OF assms, of "fst e" "snd e'" "snd e"] that \<open>e \<in> set (active_polls d)\<close>
      by (metis prod.collapse)
    then show ?thesis using that by force
  qed
  then show ?thesis
    by (simp add: clean_old_polls_def Let_def fold_remove_poll_active cong: filter_cong)
qed

lemma clean_old_polls_processed:
  assumes "distinct (map fst (active_polls d))"
  shows "processed_polls (clean_old_polls today d) =
    processed_polls d - (fst ` set (active_polls d) - fst ` set (active_polls (clean_old_polls today d)))"
proof -
  let ?old = "\<lambda>e. old_poll today (snd e)"
  have uniq: "e' = e"
    if "e \<in> set (active_polls d)" "e' \<in> set (active_polls d)" "fst e' = fst e" for e e'
  proof -
    have "(fst e, snd e) \<in> set (active_polls d)"
      using that(1) by simp
    moreover have "(fst e', snd e') \<in> set (active_polls d)"
      using that(2) by simp
    then have "(fst e, snd e') \<in> set (active_polls d)"
      by (simp only: that(3))
    ultimately have "snd e = snd e'"
      by (rule eq_key_imp_eq_value [OF assms])
    with that(3) show ?thesis by (simp add: prod_eq_iff)
  qed
  have "fst ` set (filter ?old (active_polls d)) =
      fst ` set (active_polls d) - fst ` set (filter (\<lambda>e. \<not> ?old e) (active_polls d))"
    (is "?L = ?R")
  proof (rule set_eqI)
    fix x
    show "x \<in> ?L \<longleftrightarrow> x \<in> ?R"
    proof
      assume "x \<in> ?L"
      then obtain e where e: "e \<in> set (active_polls d)" "?old e" "x = fst e" by auto
      have "x \<notin> fst ` set (filter (\<lambda>e. \<not> ?old e) (active_polls d))"
      proof
        assume "x \<in> fst ` set (filter (\<lambda>e. \<not> ?old e) (active_polls d))"
        then obtain e' where e': "e' \<in> set (active_polls d)" "\<not> ?old e'" "x = fst e'" by auto
        have "e' = e" using uniq [OF e(1) e'(1)] e(3) e'(3) by simp
        with e(2) e'(2) show False by simp
      qed
      with e show "x \<in> ?R" by simp
    next
      assume "x \<in> ?R"
      then obtain e where e: "e \<in> set (active_polls d)" "x = fst e"
        and no: "x \<notin> fst ` set (filter (\<lambda>e. \<not> ?old e) (active_polls d))" by auto
      have "?old e"
      proof (rule ccontr)
        assume "\<not> ?old e"
        with e have "x \<in> fst ` set (filter (\<lambda>e. \<not> ?old e) (active_polls d))" by simp
        with no show False by simp
      qed
      with e show "x \<in> ?L" by simp
    qed
  qed
  moreover have "processed_polls (clean_old_polls today d) =
      processed_polls d - fst ` set (filter ?old (active_polls d))"
    by (simp add: clean_old_polls_def Let_def fold_remove_poll_processed)
  ultimately show ?thesis
    by (simp only: clean_old_polls_active [OF assms])
qed

lemma clean_old_polls_rest:
  "votes (clean_old_polls today d) = votes d
   \<and> current_week_start (clean_old_polls today d) = current_week_start d
   \<and> last_update_id (clean_old_polls today d) = last_update_id d"
  by (simp add: clean_old_polls_def Let_def fold_remove_poll_rest fold_remove_poll_cursor)

text \<open>
  Claim C5, as stated, fails: a creation date that is the empty text cannot be parsed
  (\<^verbatim>\<open>strptime\<close> raises \<^verbatim>\<open>ValueError\<close> on it), and the test \<^verbatim>\<open>if poll_date_str:\<close> of line
  213 keeps the poll without trying.
\<close>

theorem empty_date_retained:
  "strptime [] = None
   \<and> map_of (active_polls (clean_old_polls (ymd2ord 2024 3 15)
        \<lparr>current_week_start = Some ''2024-03-10'',
         active_polls = [(''p1'', \<lparr>message_id = 7, date = Some []\<rparr>)],
         votes = [], processed_polls = {''p1''}, last_update_id = Some 42\<rparr>)) ''p1''
     = Some \<lparr>message_id = 7, date = Some []\<rparr>"
  by (simp add: clean_old_polls_def old_poll_def Let_def)

text \<open>
  Claim C5, amended. With \<open>today\<close> the current date and \<open>d\<close> a state whose poll ids are
  distinct (they are the keys of a dictionary), \<^verbatim>\<open>clean_old_polls\<close> keeps, in their order
  and unchanged, the polls that \<open>old_poll\<close> does not select. For a poll whose date is
  parsed, that is: it is kept exactly when the date is at most 7 days before \<open>today\<close>. A
  poll whose date is not empty and is not parsed is removed. A poll with no date or with
  the empty date is kept. The ids removed from the active polls, and no others, are
  removed from the processed polls; the scores, the week start and the cursor stay.
\<close>

theorem expiry:
  assumes "distinct (map fst (active_polls d))"
  shows "active_polls (clean_old_polls today d) =
        filter (\<lambda>e. \<not> old_poll today (snd e)) (active_polls d)
    \<and> (\<forall>e\<in>set (active_polls d). \<forall>s pd. date (snd e) = Some s \<and> strptime s = Some pd \<longrightarrow>
          (e \<in> set (active_polls (clean_old_polls today d)) \<longleftrightarrow> today - pd \<le> 7))
    \<and> (\<forall>e\<in>set (active_polls d). \<forall>s. date (snd e) = Some s \<and> s \<noteq> [] \<and> strptime s = None \<longrightarrow>
          e \<notin> set (active_polls (clean_old_polls today d)))
    \<and> (\<forall>e\<in>set (active_polls d). date (snd e) = None \<or> date (snd e) = Some [] \<longrightarrow>
          e \<in> set (active_polls (clean_old_polls today d)))
    \<and> processed_polls (clean_old_polls today d) =
        processed_polls d -
          (fst ` set (active_polls d) - fst ` set (active_polls (clean_old_polls today d)))
    \<and> votes (clean_old_polls today d) = votes d
    \<and> current_week_start (clean_old_polls today d) = current_week_start d
    \<and> last_update_id (clean_old_polls today d) = last_update_id d"
proof -
  note act = clean_old_polls_active [OF assms, of today]
  have parsed: "e \<in> set (active_polls (clean_old_polls today d)) \<longleftrightarrow> today - pd \<le> 7"
    if "e \<in> set (active_polls d)" "date (snd e) = Some s" "strptime s = Some pd" for e s pd
  proof -
    have "s \<noteq> []" using that(3) by auto
    then have "old_poll today (snd e) \<longleftrightarrow> 7 < today - pd"
      using that(2,3) by (simp add: old_poll_def Let_def)
    then show ?thesis
      unfolding act using that(1) by auto
  qed
  have unparsed: "e \<notin> set (active_polls (clean_old_polls today d))"
    if "date (snd e) = Some s" "s \<noteq> []" "strptime s = None" for e s
  proof -
    have "old_poll today (snd e)"
      using that by (simp add: old_poll_def)
    then show ?thesis
      unfolding act by simp
  qed
  have undated: "e \<in> set (active_polls (clean_old_polls today d))"
    if "e \<in> set (active_polls d)" "date (snd e) = None \<or> date (snd e) = Some []" for e
  proof -
    have "\<not> old_poll today (snd e)"
      using that(2) by (auto simp: old_poll_def)
    then show ?thesis
      unfolding act using that(1) by simp
  qed
  have a: "\<forall>e\<in>set (active_polls d). \<forall>s pd. date (snd e) = Some s \<and> strptime s = Some pd \<longrightarrow>
          (e \<in> set (active_polls (clean_old_polls today d)) \<longleftrightarrow> today - pd \<le> 7)"
    using parsed by blast
  have b: "\<forall>e\<in>set (active_polls d). \<forall>s. date (snd e) = Some s \<and> s \<noteq> [] \<and> strptime s = None \<longrightarrow>
          e \<notin> set (active_polls (clean_old_polls today d))"
    using unparsed by blast
  have c: "\<forall>e\<in>set (active_polls d). date (snd e) = None \<or> date (snd e) = Some [] \<longrightarrow>
          e \<in> set (active_polls (clean_old_polls today d))"
    using undated by blast
  note rest = clean_old_polls_rest [of today d]
  show ?thesis
    by (rule conjI [OF act conjI [OF a conjI [OF b conjI [OF c
          conjI [OF clean_old_polls_processed [OF assms, of today] rest]]]]])
qed

theorem expiry_witness:
  "active_polls (clean_old_polls (ymd2ord 2024 3 15)
      \<lparr>current_week_start = Some ''2024-03-10'',
       active_polls = [(''p1'', \<lparr>message_id = 1, date = Some ''2024-03-08''\<rparr>),
                       (''p2'', \<lparr>message_id = 2, date = Some ''2024-03-07''\<rparr>),
                       (''p3'', \<lparr>message_id = 3, date = Some ''garbage''\<rparr>),
                       (''p4'', \<lparr>message_id = 4, date = None\<rparr>)],
       votes = [(''bob'', 3)],
       processed_polls = {''p1'', ''p2'', ''p9''},
       last_update_id = Some 42\<rparr>)
     = [(''p1'', \<lparr>message_id = 1, date = Some ''2024-03-08''\<rparr>),
        (''p4'', \<lparr>message_id = 4, date = None\<rparr>)]
   \<and> processed_polls (clean_old_polls (ymd2ord 2024 3 15)
      \<lparr>current_week_start = Some ''2024-03-10'',
       active_polls = [(''p1'', \<lparr>message_id = 1, date = Some ''2024-03-08''\<rparr>),
                       (''p2'', \<lparr>message_id = 2, date = Some ''2024-03-07''\<rparr>),
                       (''p3'', \<lparr>message_id = 3, date = Some ''garbage''\<rparr>),
                       (''p4'', \<lparr>message_id = 4, date = None\<rparr>)],
       votes = [(''bob'', 3)],
       processed_polls = {''p1'', ''p2'', ''p9''},
       last_update_id = Some 42\<rparr>)
     = {''p1'', ''p9''}"
proof -
  let ?d = "\<lparr>current_week_start = Some ''2024-03-10'',
       active_polls = [(''p1'', \<lparr>message_id = 1, date = Some ''2024-03-08''\<rparr>),
                       (''p2'', \<lparr>message_id = 2, date = Some ''2024-03-07''\<rparr>),
                       (''p3'', \<lparr>message_id = 3, date = Some ''garbage''\<rparr>),
                       (''p4'', \<lparr>message_id = 4, date = None\<rparr>)],
       votes = [(''bob'', 3)],
       processed_polls = {''p1'', ''p2'', ''p9''},
       last_update_id = Some 42\<rparr>"
  have dist: "distinct (map fst (active_polls ?d))" by simp
  note th = expiry [OF dist, of 738960]
  have act: "active_polls (clean_old_polls 738960 ?d) =
      [(''p1'', \<lparr>message_id = 1, date = Some ''2024-03-08''\<rparr>),
       (''p4'', \<lparr>message_id = 4, date = None\<rparr>)]"
    using conjunct1 [OF th] by (simp add: old_poll_def strptime_examples del: strptime.simps)
  have "processed_polls (clean_old_polls 738960 ?d) =
      processed_polls ?d - (fst ` set (active_polls ?d) - fst ` set (active_polls (clean_old_polls 738960 ?d)))"
    using th by (elim conjE)
  then have "processed_polls (clean_old_polls 738960 ?d) = {''p1'', ''p9''}"
    unfolding act by auto
  with act show ?thesis by (simp add: day_2024_03_15)
qed

end
